theory Spec2Isabelle
  imports Main
begin

section \<open>The command line\<close>

text \<open>
  The namespace that \<^verbatim>\<open>argparse\<close> hands to the script: the two positional arguments
  \<^verbatim>\<open>path\<close> and \<^verbatim>\<open>type\<close>, the three switches, and \<^verbatim>\<open>min_version\<close>, a pair of Python
  integers. The field \<open>args_path\<close> is \<^verbatim>\<open>args.path\<close>, and so on.
\<close>

record args =
  args_path :: string
  args_type :: string
  args_no_push :: bool
  args_with_pypy :: bool
  args_support_legacy_python :: bool
  args_min_version :: "int \<times> int"

section \<open>Supported versions\<close>

definition MAX_PYTHON :: "int \<times> int" where
  "MAX_PYTHON = (3, 9)"

text \<open>Python's \<^verbatim>\<open>range(a, b)\<close> on integers: \<open>a, a + 1, \<dots>, b - 1\<close>.\<close>

definition range_py :: "int \<Rightarrow> int \<Rightarrow> int list" where
  "range_py a b = [a..b - 1]"

definition get_supported_versions :: "'a args_scheme \<Rightarrow> (int \<times> int) list" where
  "get_supported_versions a =
     (let versions = map (\<lambda>minor. (3, minor))
                         (range_py (snd (args_min_version a)) (snd MAX_PYTHON + 1))
      in if args_support_legacy_python a then (2, 7) # versions else versions)"

section \<open>Text\<close>

text \<open>
  A Python \<^verbatim>\<open>str\<close> is modelled as a \<^typ>\<open>string\<close>; a \<^typ>\<open>char\<close> stands for one code
  point below 256.
\<close>

definition LF :: char where "LF = CHR 0x0A"
definition CR :: char where "CR = CHR 0x0D"
definition DQ :: char where "DQ = CHR 0x22"

text \<open>
  The line boundaries of \<^verbatim>\<open>str.splitlines\<close> among these code points: line feed, vertical
  tab, form feed, carriage return, the three separators \<^verbatim>\<open>\x1c\<close>, \<^verbatim>\<open>\x1d\<close>, \<^verbatim>\<open>\x1e\<close>, and
  next line \<^verbatim>\<open>\x85\<close>.
\<close>

definition is_linebreak :: "char \<Rightarrow> bool" where
  "is_linebreak c \<longleftrightarrow>
     c \<in> {CHR 0x0A, CHR 0x0B, CHR 0x0C, CHR 0x0D, CHR 0x1C, CHR 0x1D, CHR 0x1E, CHR 0x85}"

text \<open>
  \<^verbatim>\<open>str.splitlines()\<close>: the text is cut at every line boundary, the boundaries are dropped,
  a carriage return followed by a line feed is one boundary, and no empty last line is
  produced for a text that ends in a boundary. The first argument is the line read so far.
\<close>

fun splitlines_from :: "string \<Rightarrow> string \<Rightarrow> string list" where
  "splitlines_from cur [] = (if cur = [] then [] else [cur])"
| "splitlines_from cur (c # cs) =
     (if c = CR \<and> cs \<noteq> [] \<and> hd cs = LF then cur # splitlines_from [] (tl cs)
      else if is_linebreak c then cur # splitlines_from [] cs
      else splitlines_from (cur @ [c]) cs)"

definition splitlines :: "string \<Rightarrow> string list" where
  "splitlines s = splitlines_from [] s"

text \<open>
  Reading a file opened in text mode translates \<^verbatim>\<open>\r\n\<close> and a lone \<^verbatim>\<open>\r\<close> to \<^verbatim>\<open>\n\<close>
  (universal newlines, the default of \<^verbatim>\<open>open\<close>).
\<close>

fun universal_newlines :: "string \<Rightarrow> string" where
  "universal_newlines [] = []"
| "universal_newlines (c # cs) =
     (if c = CR then LF # universal_newlines (if cs \<noteq> [] \<and> hd cs = LF then tl cs else cs)
      else c # universal_newlines cs)"

text \<open>
  \<^verbatim>\<open>str.lower()\<close> on code points below 256: the letters \<^verbatim>\<open>A\<close> to \<^verbatim>\<open>Z\<close> and the
  accented capitals \<^verbatim>\<open>\xc0\<close> to \<^verbatim>\<open>\xde\<close> (without the multiplication sign \<^verbatim>\<open>\xd7\<close>) move
  up by 32.
\<close>

definition lower_char :: "char \<Rightarrow> char" where
  "lower_char c =
     (let n = (of_char c :: nat)
      in if (65 \<le> n \<and> n \<le> 90) \<or> (192 \<le> n \<and> n \<le> 222 \<and> n \<noteq> 215)
         then char_of (n + 32) else c)"

definition lower :: "string \<Rightarrow> string" where
  "lower s = map lower_char s"

text \<open>\<^verbatim>\<open>str(n)\<close> for an integer and \<^verbatim>\<open>str(b)\<close> for a boolean.\<close>

fun str_nat :: "nat \<Rightarrow> string" where
  "str_nat n =
     (if n < 10 then [char_of (48 + n)]
      else str_nat (n div 10) @ [char_of (48 + n mod 10)])"

definition str_int :: "int \<Rightarrow> string" where
  "str_int i = (if i < 0 then CHR ''-'' # str_nat (nat (- i)) else str_nat (nat i))"

definition str_bool :: "bool \<Rightarrow> string" where
  "str_bool b = (if b then ''True'' else ''False'')"

text \<open>\<^verbatim>\<open>str.split(sep)\<close> for a separator of one character.\<close>

fun split_from :: "char \<Rightarrow> string \<Rightarrow> string \<Rightarrow> string list" where
  "split_from sep cur [] = [cur]"
| "split_from sep cur (c # cs) =
     (if c = sep then cur # split_from sep [] cs else split_from sep (cur @ [c]) cs)"

definition split :: "char \<Rightarrow> string \<Rightarrow> string list" where
  "split sep s = split_from sep [] s"

text \<open>\<^verbatim>\<open>sep.join(xs)\<close>.\<close>

fun join :: "string \<Rightarrow> string list \<Rightarrow> string" where
  "join sep [] = []"
| "join sep [x] = x"
| "join sep (x # y # xs) = x @ sep @ join sep (y # xs)"

section \<open>Errors\<close>

text \<open>
  The exceptions that can leave the script. \<^verbatim>\<open>sys.exit(n)\<close> raises \<open>SystemExit n\<close>, which
  passes through \<^verbatim>\<open>try\<close>/\<^verbatim>\<open>finally\<close> like every other exception. \<open>OSError\<close> stands for its
  whole family (a missing file, a missing executable). \<open>Unmodelled\<close> marks an input on
  which a library function is outside what is modelled here.
\<close>

datatype py_error =
    ValueError | KeyError | IndexError | TypeError | OSError | EOFError
  | SystemExit int | Unmodelled

section \<open>Paths\<close>

text \<open>
  A \<^verbatim>\<open>pathlib.Path\<close> on POSIX: the root (empty, \<^verbatim>\<open>/\<close> or \<^verbatim>\<open>//\<close>) and the components.
  Parsing drops empty components and \<^verbatim>\<open>.\<close>; it keeps \<^verbatim>\<open>..\<close>.
\<close>

datatype pypath = PurePath (root: string) (parts: "string list")

definition splitroot :: "string \<Rightarrow> string \<times> string" where
  "splitroot p =
     (if p \<noteq> [] \<and> hd p = CHR ''/'' then
        (let stripped = dropWhile (\<lambda>c. c = CHR ''/'') p
         in (if length p - length stripped = 2 then ''//'' else ''/'', stripped))
      else ([], p))"

definition Path :: "string \<Rightarrow> pypath" where
  "Path p =
     (case splitroot p of (r, rel) \<Rightarrow>
        PurePath r (filter (\<lambda>x. x \<noteq> [] \<and> x \<noteq> ''.'') (split CHR ''/'' rel)))"

text \<open>\<^verbatim>\<open>p / q\<close> for a path \<open>q\<close>: an anchored right operand replaces the left one.\<close>

definition joinpath :: "pypath \<Rightarrow> pypath \<Rightarrow> pypath" where
  "joinpath p q = (if root q \<noteq> [] then q else PurePath (root p) (parts p @ parts q))"

text \<open>\<^verbatim>\<open>p / q\<close> for a string \<open>q\<close>.\<close>

definition slash :: "pypath \<Rightarrow> string \<Rightarrow> pypath" where
  "slash p q = joinpath p (Path q)"

text \<open>\<^verbatim>\<open>p.name\<close>: the last component, empty when there is none.\<close>

definition name :: "pypath \<Rightarrow> string" where
  "name p = (if parts p = [] then [] else last (parts p))"

text \<open>\<^verbatim>\<open>str(p)\<close>.\<close>

definition str_path :: "pypath \<Rightarrow> string" where
  "str_path p =
     (if root p = [] \<and> parts p = [] then ''.'' else root p @ join ''/'' (parts p))"

section \<open>Formatting\<close>

text \<open>
  \<^verbatim>\<open>str.format(**kw)\<close> with string values, as a scanner over the template: \<^verbatim>\<open>{{\<close> and
  \<^verbatim>\<open>}}\<close> stand for a brace, \<^verbatim>\<open>{name}\<close> is replaced by the value of \<^verbatim>\<open>name\<close>. A single
  brace is a \<open>ValueError\<close>, an unknown name a \<open>KeyError\<close>, an empty or numeric field (a
  positional argument, of which there are none) an \<open>IndexError\<close>. A field with a
  conversion, a format specification, an attribute or an index is \<open>Unmodelled\<close>.
\<close>

datatype format_mode = FLit | FOpen | FClose | FField string

definition is_digit :: "char \<Rightarrow> bool" where
  "is_digit c \<longleftrightarrow> 48 \<le> (of_char c :: nat) \<and> (of_char c :: nat) \<le> 57"

definition cons_ok :: "string \<Rightarrow> py_error + string \<Rightarrow> py_error + string" where
  "cons_ok pre r = (case r of Inl e \<Rightarrow> Inl e | Inr t \<Rightarrow> Inr (pre @ t))"

fun format_from :: "format_mode \<Rightarrow> (string \<times> string) list \<Rightarrow> string \<Rightarrow> py_error + string" where
  "format_from FLit kw [] = Inr []"
| "format_from FLit kw (c # cs) =
     (if c = CHR ''{'' then format_from FOpen kw cs
      else if c = CHR ''}'' then format_from FClose kw cs
      else cons_ok [c] (format_from FLit kw cs))"
| "format_from FOpen kw [] = Inl ValueError"
| "format_from FOpen kw (c # cs) =
     (if c = CHR ''{'' then cons_ok ''{'' (format_from FLit kw cs)
      else if c = CHR ''}'' then Inl IndexError
      else if c \<in> set ''!:.['' then Inl Unmodelled
      else format_from (FField [c]) kw cs)"
| "format_from FClose kw [] = Inl ValueError"
| "format_from FClose kw (c # cs) =
     (if c = CHR ''}'' then cons_ok ''}'' (format_from FLit kw cs) else Inl ValueError)"
| "format_from (FField f) kw [] = Inl ValueError"
| "format_from (FField f) kw (c # cs) =
     (if c = CHR ''}'' then
        (if list_all is_digit f then Inl IndexError
         else case map_of kw f of
                None \<Rightarrow> Inl KeyError
              | Some v \<Rightarrow> cons_ok v (format_from FLit kw cs))
      else if c \<in> set ''{!:.['' then Inl Unmodelled
      else format_from (FField (f @ [c])) kw cs)"

definition format :: "string \<Rightarrow> (string \<times> string) list \<Rightarrow> py_error + string" where
  "format template kw = format_from FLit kw template"

text \<open>
  \<^verbatim>\<open>template % mapping\<close>: \<^verbatim>\<open>%%\<close> stands for a percent sign, \<^verbatim>\<open>%(key)s\<close> is replaced by
  \<^verbatim>\<open>str\<close> of the value and \<^verbatim>\<open>%(key)d\<close> by the integer in decimal. The key ends at the
  matching parenthesis and is looked up at once. A template that ends inside a
  directive is a \<open>ValueError\<close>, an unknown key a \<open>KeyError\<close>, \<^verbatim>\<open>%(key)d\<close> on a string
  a \<open>TypeError\<close>. Flags, widths, the other conversion types and a directive without a
  key are \<open>Unmodelled\<close>.
\<close>

datatype pyval = PInt int | PStr string

definition str_val :: "pyval \<Rightarrow> string" where
  "str_val v = (case v of PInt i \<Rightarrow> str_int i | PStr s \<Rightarrow> s)"

datatype percent_mode = PLit | PPercent | PKey nat string | PConv pyval

fun percent_from :: "percent_mode \<Rightarrow> (string \<times> pyval) list \<Rightarrow> string \<Rightarrow> py_error + string" where
  "percent_from PLit d [] = Inr []"
| "percent_from PLit d (c # cs) =
     (if c = CHR ''%'' then percent_from PPercent d cs
      else cons_ok [c] (percent_from PLit d cs))"
| "percent_from PPercent d [] = Inl ValueError"
| "percent_from PPercent d (c # cs) =
     (if c = CHR ''%'' then cons_ok ''%'' (percent_from PLit d cs)
      else if c = CHR ''('' then percent_from (PKey 0 []) d cs
      else Inl Unmodelled)"
| "percent_from (PKey n k) d [] = Inl ValueError"
| "percent_from (PKey n k) d (c # cs) =
     (if c = CHR '')'' then
        (if n = 0 then
           (case map_of d k of
              None \<Rightarrow> Inl KeyError
            | Some v \<Rightarrow> percent_from (PConv v) d cs)
         else percent_from (PKey (n - 1) (k @ [c])) d cs)
      else if c = CHR ''('' then percent_from (PKey (n + 1) (k @ [c])) d cs
      else percent_from (PKey n (k @ [c])) d cs)"
| "percent_from (PConv v) d [] = Inl ValueError"
| "percent_from (PConv v) d (c # cs) =
     (if c = CHR ''s'' then cons_ok (str_val v) (percent_from PLit d cs)
      else if c = CHR ''d'' then
        (case v of
           PInt i \<Rightarrow> cons_ok (str_int i) (percent_from PLit d cs)
         | PStr s \<Rightarrow> Inl TypeError)
      else Inl Unmodelled)"

definition percent :: "string \<Rightarrow> (string \<times> pyval) list \<Rightarrow> py_error + string" where
  "percent template d = percent_from PLit d template"

section \<open>Rendering the versions\<close>

definition get_tox_ini_versions :: "(int \<times> int) list \<Rightarrow> string" where
  "get_tox_ini_versions versions =
     (let env_versions = map (\<lambda>(major, minor). ''py'' @ str_int major @ str_int minor) versions
      in concat (map (\<lambda>ver. [LF] @ ''    '' @ ver @ '','') env_versions))"

definition get_test_matrix_versions :: "(int \<times> int) list \<Rightarrow> string" where
  "get_test_matrix_versions versions =
     (let env_versions =
            map (\<lambda>(major, minor). (str_int major @ ''.'' @ str_int minor,
                                    ''py'' @ str_int major @ str_int minor)) versions
      in concat (map (\<lambda>(v1, v2). [LF] @ ''        - ['' @ [DQ] @ v1 @ [DQ] @ '', ''
                                    @ [DQ] @ v2 @ [DQ] @ '']'')
                     env_versions))"

definition TESTS_MATRIX_PYPY :: string where
  "TESTS_MATRIX_PYPY =
     [LF] @ ''        - ['' @ [DQ] @ ''pypy2'' @ [DQ] @ '', '' @ [DQ] @ ''pypy'' @ [DQ] @ '']''
     @ [LF] @ ''        - ['' @ [DQ] @ ''pypy3'' @ [DQ] @ '', '' @ [DQ] @ ''pypy3'' @ [DQ] @ '']''"

definition TOX_INI_PYPY :: string where
  "TOX_INI_PYPY = [LF] @ ''    pypy,'' @ [LF] @ ''    pypy3,''"

definition META_HINT :: string where
  "META_HINT =
     ''# Generated from:'' @ [LF]
     @ ''# https://github.com/gocept/meta/tree/master/config/{config_type}'' @ [LF]"

section \<open>The metadata store\<close>

text \<open>
  A \<^verbatim>\<open>ConfigParser\<close> holds its sections, and each section its options, in the order in
  which they were added. Option names pass through \<^verbatim>\<open>optionxform\<close>, which is
  \<^verbatim>\<open>str.lower\<close>. The model has no \<^verbatim>\<open>DEFAULT\<close> section and no \<^verbatim>\<open>%\<close> interpolation of values.
\<close>

type_synonym options = "(string \<times> string) list"
type_synonym config = "(string \<times> options) list"

text \<open>Assignment to a key of a dictionary: in place when the key is there, at the end otherwise.\<close>

fun setitem :: "('k \<times> 'v) list \<Rightarrow> 'k \<Rightarrow> 'v \<Rightarrow> ('k \<times> 'v) list" where
  "setitem [] k v = [(k, v)]"
| "setitem ((k', v') # kvs) k v =
     (if k' = k then (k, v) # kvs else (k', v') # setitem kvs k v)"

definition optionxform :: "string \<Rightarrow> string" where
  "optionxform k = lower k"

text \<open>\<^verbatim>\<open>meta_opts[key] = value\<close> on the section \<^verbatim>\<open>meta\<close> of the parser.\<close>

definition cfg_set :: "config \<Rightarrow> string \<Rightarrow> string \<Rightarrow> string \<Rightarrow> config" where
  "cfg_set cfg sec k v =
     map (\<lambda>(n, opts). if n = sec then (n, setitem opts (optionxform k) v) else (n, opts)) cfg"

definition cfg_get :: "config \<Rightarrow> string \<Rightarrow> string \<Rightarrow> string option" where
  "cfg_get cfg sec k =
     (case map_of cfg sec of None \<Rightarrow> None | Some opts \<Rightarrow> map_of opts (optionxform k))"

text \<open>
  \<^verbatim>\<open>meta_opts.getboolean(key, fallback)\<close>: the fallback when the option is missing, else the
  value read through \<^verbatim>\<open>BOOLEAN_STATES\<close> without regard to case, a \<open>ValueError\<close> when it is
  none of them.
\<close>

definition getboolean :: "config \<Rightarrow> string \<Rightarrow> string \<Rightarrow> bool \<Rightarrow> py_error + bool" where
  "getboolean cfg sec k fallback =
     (case cfg_get cfg sec k of
        None \<Rightarrow> Inr fallback
      | Some v \<Rightarrow>
          if lower v \<in> set [''1'', ''yes'', ''true'', ''on''] then Inr True
          else if lower v \<in> set [''0'', ''no'', ''false'', ''off''] then Inr False
          else Inl ValueError)"

text \<open>\<^verbatim>\<open>meta_opts.setdefault(key, default)\<close>: the value and the parser afterwards.\<close>

definition setdefault :: "config \<Rightarrow> string \<Rightarrow> string \<Rightarrow> string \<Rightarrow> string \<times> config" where
  "setdefault cfg sec k dflt =
     (case cfg_get cfg sec k of
        Some v \<Rightarrow> (v, cfg)
      | None \<Rightarrow> (dflt, cfg_set cfg sec k dflt))"

section \<open>The process and its surroundings\<close>

text \<open>
  What a run can touch. The file system maps the components of an absolute path to the
  content of the file there; a file written by \<^verbatim>\<open>ConfigParser.write\<close> is held as the text
  in front of it and the sections written (the INI syntax itself is not modelled, so
  reading such a file back gives these sections). \<open>dirs\<close> are the directories, \<open>stdin\<close>
  the lines the operator will type. \<open>..\<close> and symbolic links are not resolved.
\<close>

datatype content = Text string | Ini string config

record env =
  files :: "string list \<rightharpoonup> content"
  dirs :: "string list set"
  stdin :: "string list"

text \<open>
  What the process does, in order: the subprocesses it starts (with the directory they
  are started in), the files it truncates, writes and appends to, the directories it
  makes, its changes of directory and what it prints.
\<close>

datatype event =
    Run "string list" "string list"
  | Truncate "string list"
  | Write "string list" string
  | WriteIni "string list" config
  | Append "string list" string
  | Mkdir "string list"
  | Chdir "string list"
  | Print string

text \<open>
  The state of a run: the surroundings, the working directory of the process (the
  components below the root, so it is always absolute) and the trace so far.
\<close>

record state = env +
  cwd :: "string list"
  trace :: "event list"

record completed =
  returncode :: int
  stdout :: string

text \<open>
  The parameters of a run. \<open>subprocess_run\<close> stands for the programs started with
  \<^verbatim>\<open>subprocess.run\<close>: from the arguments, the \<^verbatim>\<open>capture_output\<close> flag and everything so
  far it gives either the exception raised (the program is missing) or the completed
  process and the surroundings as the program left them. A subprocess cannot change the
  working directory of its parent. \<open>script_dir\<close> is \<^verbatim>\<open>pathlib.Path(__file__).parent\<close>.
\<close>

record platform =
  subprocess_run :: "string list \<Rightarrow> bool \<Rightarrow> state \<Rightarrow> py_error + completed \<times> env"
  script_dir :: pypath

text \<open>
  A statement is a function from the state to its outcome, an exception or a value, and
  the state it leaves; an exception keeps the effects that came before it.
\<close>

type_synonym 'a io = "state \<Rightarrow> (py_error + 'a) \<times> state"

definition return_io :: "'a \<Rightarrow> 'a io" where
  "return_io x = (\<lambda>s. (Inr x, s))"

definition raise_io :: "py_error \<Rightarrow> 'a io" where
  "raise_io e = (\<lambda>s. (Inl e, s))"

definition lift_io :: "py_error + 'a \<Rightarrow> 'a io" where
  "lift_io r = (\<lambda>s. (r, s))"

definition bind_io :: "'a io \<Rightarrow> ('a \<Rightarrow> 'b io) \<Rightarrow> 'b io" where
  "bind_io m f = (\<lambda>s. case m s of (Inl e, s') \<Rightarrow> (Inl e, s') | (Inr x, s') \<Rightarrow> f x s')"

definition seq_io :: "unit io \<Rightarrow> 'b io \<Rightarrow> 'b io" where
  "seq_io m n = bind_io m (\<lambda>_. n)"

text \<open>
  \<^verbatim>\<open>try: body finally: handler\<close>: the handler runs whatever the body did; the outcome is
  the body's unless the handler raises.
\<close>

definition try_finally :: "'a io \<Rightarrow> unit io \<Rightarrow> 'a io" where
  "try_finally body handler =
     (\<lambda>s. case body s of (r, s') \<Rightarrow>
             (case handler s' of (Inl e, s'') \<Rightarrow> (Inl e, s'') | (Inr _, s'') \<Rightarrow> (r, s'')))"

text \<open>The exit status of the process: of \<^verbatim>\<open>sys.exit(n)\<close> the low eight bits of \<open>n\<close>.\<close>

definition exit_status :: "py_error + 'a \<Rightarrow> int" where
  "exit_status r =
     (case r of Inr _ \<Rightarrow> 0 | Inl (SystemExit n) \<Rightarrow> n mod 256 | Inl _ \<Rightarrow> 1)"

subsection \<open>Primitives\<close>

definition abspath :: "state \<Rightarrow> pypath \<Rightarrow> string list" where
  "abspath s p = parts (joinpath (PurePath ''/'' (cwd s)) p)"

definition log :: "event \<Rightarrow> state \<Rightarrow> state" where
  "log e s = s\<lparr>trace := trace s @ [e]\<rparr>"

text \<open>\<^verbatim>\<open>print(x, end=e)\<close>.\<close>

definition print_end :: "string \<Rightarrow> string \<Rightarrow> unit io" where
  "print_end x e = (\<lambda>s. (Inr (), log (Print (x @ e)) s))"

definition print :: "string \<Rightarrow> unit io" where
  "print x = print_end x [LF]"

text \<open>\<^verbatim>\<open>input()\<close>: the next line of standard input, \<open>EOFError\<close> when there is none.\<close>

definition input :: "string io" where
  "input = (\<lambda>s. case stdin s of
                   [] \<Rightarrow> (Inl EOFError, s)
                 | l # ls \<Rightarrow> (Inr l, s\<lparr>stdin := ls\<rparr>))"

text \<open>\<^verbatim>\<open>p.exists()\<close>.\<close>

definition exists :: "pypath \<Rightarrow> bool io" where
  "exists p = (\<lambda>s. (Inr (abspath s p \<in> dom (files s) \<or> abspath s p \<in> dirs s), s))"

text \<open>\<^verbatim>\<open>open(p).read()\<close>.\<close>

definition read_text :: "pypath \<Rightarrow> string io" where
  "read_text p =
     (\<lambda>s. case files s (abspath s p) of
             None \<Rightarrow> (Inl OSError, s)
           | Some (Text t) \<Rightarrow> (Inr (universal_newlines t), s)
           | Some (Ini h c) \<Rightarrow> (Inl Unmodelled, s))"

text \<open>
  \<^verbatim>\<open>open(p, 'w')\<close> empties the file; each \<^verbatim>\<open>write\<close> on it (\<open>write_text\<close>) adds to its end. Opening for
  writing is taken to succeed.
\<close>

definition text_of :: "content option \<Rightarrow> string" where
  "text_of c = (case c of Some (Text t) \<Rightarrow> t | _ \<Rightarrow> [])"

definition open_w :: "pypath \<Rightarrow> unit io" where
  "open_w p =
     (\<lambda>s. (Inr (), log (Truncate (abspath s p))
                      (s\<lparr>files := (files s)(abspath s p \<mapsto> Text [])\<rparr>)))"

definition write_text :: "pypath \<Rightarrow> string \<Rightarrow> unit io" where
  "write_text p t =
     (\<lambda>s. (Inr (), log (Write (abspath s p) t)
                      (s\<lparr>files := (files s)(abspath s p \<mapsto>
                                      Text (text_of (files s (abspath s p)) @ t))\<rparr>)))"

text \<open>\<^verbatim>\<open>open(p, 'a')\<close> followed by one \<^verbatim>\<open>write\<close>.\<close>

definition append_text :: "pypath \<Rightarrow> string \<Rightarrow> unit io" where
  "append_text p t =
     (\<lambda>s. case files s (abspath s p) of
             Some (Ini h c) \<Rightarrow> (Inl Unmodelled, s)
           | _ \<Rightarrow> (Inr (), log (Append (abspath s p) t)
                             (s\<lparr>files := (files s)(abspath s p \<mapsto>
                                             Text (text_of (files s (abspath s p)) @ t))\<rparr>)))"

text \<open>
  \<^verbatim>\<open>meta_cfg.read(p)\<close>: a path that cannot be opened is skipped without an error. Parsing
  a file that was written as plain text is \<open>Unmodelled\<close>.
\<close>

definition read_cfg :: "pypath \<Rightarrow> config io" where
  "read_cfg p =
     (\<lambda>s. case files s (abspath s p) of
             None \<Rightarrow> (Inr [], s)
           | Some (Ini h c) \<Rightarrow> (Inr c, s)
           | Some (Text t) \<Rightarrow> (Inl Unmodelled, s))"

text \<open>\<^verbatim>\<open>meta_cfg.write(f)\<close> on a file opened for writing at \<open>p\<close>.\<close>

definition write_cfg :: "pypath \<Rightarrow> config \<Rightarrow> unit io" where
  "write_cfg p c =
     (\<lambda>s. (Inr (), log (WriteIni (abspath s p) c)
                      (s\<lparr>files := (files s)(abspath s p \<mapsto>
                                      Ini (text_of (files s (abspath s p))) c)\<rparr>)))"

text \<open>
  \<^verbatim>\<open>p.mkdir(parents=True, exist_ok=True)\<close>: the directory and its missing ancestors are
  made; it fails when the path or one of its ancestors is a file.
\<close>

definition mkdir_parents :: "pypath \<Rightarrow> unit io" where
  "mkdir_parents p =
     (\<lambda>s. let a = abspath s p; ancestors = map (\<lambda>n. take n a) [0..<Suc (length a)]
           in if \<exists>d \<in> set ancestors. d \<in> dom (files s) then (Inl OSError, s)
              else (Inr (), log (Mkdir a) (s\<lparr>dirs := dirs s \<union> set ancestors\<rparr>)))"

text \<open>\<^verbatim>\<open>os.getcwd()\<close> and \<^verbatim>\<open>os.chdir(p)\<close>; changing directory is taken to succeed.\<close>

definition getcwd :: "pypath io" where
  "getcwd = (\<lambda>s. (Inr (PurePath ''/'' (cwd s)), s))"

definition chdir :: "pypath \<Rightarrow> unit io" where
  "chdir p = (\<lambda>s. (Inr (), log (Chdir (abspath s p)) (s\<lparr>cwd := abspath s p\<rparr>)))"

text \<open>
  \<^verbatim>\<open>subprocess.run(args, capture_output=c, text=True)\<close>: the start is recorded, then the
  program does what the platform says.
\<close>

definition run :: "platform \<Rightarrow> string list \<Rightarrow> bool \<Rightarrow> completed io" where
  "run pf cmd capture_output =
     (\<lambda>s. let s1 = log (Run (cwd s) cmd) s
           in case subprocess_run pf cmd capture_output s1 of
                Inl e \<Rightarrow> (Inl e, s1)
              | Inr (result, e) \<Rightarrow>
                  (Inr result, s1\<lparr>files := files e, dirs := dirs e, stdin := stdin e\<rparr>))"

section \<open>The functions of the script\<close>

definition call :: "platform \<Rightarrow> string list \<Rightarrow> bool \<Rightarrow> completed io" where
  "call pf cmd capture_output =
     bind_io (run pf cmd capture_output) (\<lambda>result.
       if returncode result \<noteq> 0 then
         seq_io (print ''ABORTING: Please fix the errors shown above.'') (
         seq_io (print_end ''Proceed anyway (y/N)?'' '' '') (
         bind_io input (\<lambda>answer.
           if lower answer \<noteq> ''y'' then raise_io (SystemExit (returncode result))
           else return_io result)))
       else return_io result)"

definition copy_with_meta ::
    "pypath \<Rightarrow> pypath \<Rightarrow> string \<Rightarrow> (string \<times> string) list \<Rightarrow> unit io" where
  "copy_with_meta source destination config_type kw =
     bind_io (read_text source) (\<lambda>f_data.
     seq_io (open_w destination) (
     bind_io (lift_io (format META_HINT [(''config_type'', config_type)])) (\<lambda>hint.
     seq_io (write_text destination hint) (
     bind_io (if kw \<noteq> [] then lift_io (format f_data kw) else return_io f_data) (\<lambda>f_data.
     write_text destination f_data)))))"

section \<open>The script\<close>

text \<open>
  The module body, in the order of the source, cut into the steps that the comments of
  the source name. The local variables a later step needs are passed on as results.
\<close>

text \<open>
  The check of the registry \<^verbatim>\<open>packages.txt\<close> of the configuration type.
\<close>

definition update_registry :: "pypath \<Rightarrow> pypath \<Rightarrow> unit io" where
  "update_registry config_type_path path =
     bind_io (read_text (slash config_type_path ''packages.txt'')) (\<lambda>data.
       let known_packages = splitlines data
       in if name path \<in> set known_packages then
            print (name path @ '' is already configured for this config type, updating.'')
          else
            seq_io (print (name path
                           @ '' is not yet configured for this config type, adding.'')) (
            append_text (slash config_type_path ''packages.txt'') (name path @ [LF])))"

text \<open>Read and update meta configuration: the parser is read or made new.\<close>

definition load_meta :: "pypath \<Rightarrow> config io" where
  "load_meta path =
     (let meta_cfg_path = slash path ''.meta.cfg''
      in bind_io (exists meta_cfg_path) (\<lambda>there.
         bind_io (if there then read_cfg meta_cfg_path
                  else return_io [(''meta'', [])]) (\<lambda>meta_cfg.
         if map_of meta_cfg ''meta'' = None then raise_io KeyError
         else return_io meta_cfg)))"

text \<open>
  The assignments to \<^verbatim>\<open>meta_opts\<close>; the result is the parser and the resolved
  \<^verbatim>\<open>with_pypy\<close> and \<^verbatim>\<open>support_legacy_python\<close>.
\<close>

definition git_log :: "string list" where
  "git_log = [''git'', ''log'', ''-n1'', ''--format=format:%H'']"

definition update_meta ::
    "platform \<Rightarrow> string \<Rightarrow> 'a args_scheme \<Rightarrow> config \<Rightarrow> (config \<times> bool \<times> bool) io" where
  "update_meta pf config_type a meta_cfg =
     (let c1 = cfg_set meta_cfg ''meta'' ''template'' config_type
      in bind_io (call pf git_log True) (\<lambda>result.
         let c2 = cfg_set c1 ''meta'' ''commit-id'' (stdout result)
         in bind_io (lift_io (getboolean c2 ''meta'' ''with-pypy'' False)) (\<lambda>b.
            let with_pypy = (b \<or> args_with_pypy a);
                c3 = cfg_set c2 ''meta'' ''with-pypy'' (str_bool with_pypy)
            in bind_io (lift_io (getboolean c3 ''meta'' ''support_legacy_python'' False))
                 (\<lambda>b'.
                    let support_legacy_python = (b' \<or> args_support_legacy_python a);
                        c4 = cfg_set c3 ''meta'' ''support_legacy_python''
                               (str_bool support_legacy_python)
                    in return_io (c4, with_pypy, support_legacy_python)))))"

text \<open>
  Copy template files; the result is \<^verbatim>\<open>add_coveragerc\<close> and \<^verbatim>\<open>rm_coveragerc\<close>.
\<close>

definition copy_templates :: "pypath \<Rightarrow> pypath \<Rightarrow> pypath \<Rightarrow> string \<Rightarrow> (bool \<times> bool) io" where
  "copy_templates config_type_path default_path path config_type =
     seq_io (copy_with_meta (slash config_type_path ''setup.cfg'')
                            (slash path ''setup.cfg'') config_type []) (
     seq_io (copy_with_meta (slash default_path ''MANIFEST.in'')
                            (slash path ''MANIFEST.in'') config_type []) (
     seq_io (copy_with_meta (slash default_path ''editorconfig'')
                            (slash path ''.editorconfig'') config_type []) (
     seq_io (copy_with_meta (slash default_path ''gitignore'')
                            (slash path ''.gitignore'') config_type []) (
     seq_io (mkdir_parents (slash (slash path ''.github'') ''workflows'')) (
     bind_io (exists (slash config_type_path ''coveragerc'')) (\<lambda>has_template.
       if has_template then
         seq_io (copy_with_meta (slash config_type_path ''coveragerc'')
                                (slash path ''.coveragerc'') config_type
                                [(''package_name'', name path)]) (
         return_io (True, False))
       else
         bind_io (exists (slash path ''.coveragerc'')) (\<lambda>has_old.
         return_io (False, has_old))))))))"

text \<open>Modify \<^verbatim>\<open>setup.cfg\<close> with meta options.\<close>

definition universal_wheel :: "bool \<Rightarrow> int" where
  "universal_wheel support_legacy_python = (if support_legacy_python then 1 else 0)"

definition write_setup_cfg :: "pypath \<Rightarrow> pypath \<Rightarrow> bool \<Rightarrow> unit io" where
  "write_setup_cfg config_type_path path support_legacy_python =
     bind_io (read_text (slash config_type_path ''setup.cfg'')) (\<lambda>setup_cfg.
     seq_io (open_w (slash path ''setup.cfg'')) (
     bind_io (lift_io (percent setup_cfg
                [(''universal_wheel'', PInt (universal_wheel support_legacy_python))]))
       (\<lambda>text. write_text (slash path ''setup.cfg'') text)))"

text \<open>Modify \<^verbatim>\<open>tox.ini\<close> with meta options; the result is the parser.\<close>

definition write_tox_ini ::
    "pypath \<Rightarrow> pypath \<Rightarrow> config \<Rightarrow> bool \<Rightarrow> string \<Rightarrow> config io" where
  "write_tox_ini config_type_path path meta_cfg with_pypy python_environs =
     bind_io (read_text (slash config_type_path ''tox.ini.in'')) (\<lambda>tox_ini.
     seq_io (open_w (slash path ''tox.ini'')) (
     case setdefault meta_cfg ''meta'' ''fail-under'' ''0'' of (fail_under, meta_cfg) \<Rightarrow>
       let additional_environs = (if with_pypy then TOX_INI_PYPY else [])
       in bind_io (lift_io (percent tox_ini
                     [(''coverage_report_options'', PStr (''--fail-under='' @ fail_under)),
                      (''python_environs'', PStr python_environs),
                      (''additional_environs'', PStr additional_environs)]))
            (\<lambda>text. seq_io (write_text (slash path ''tox.ini'') text) (
                     return_io meta_cfg))))"

text \<open>Modify GHA config with meta options.\<close>

definition write_tests_yml :: "pypath \<Rightarrow> pypath \<Rightarrow> bool \<Rightarrow> string \<Rightarrow> unit io" where
  "write_tests_yml default_path path with_pypy versions_config =
     (let workflows = slash (slash path ''.github'') ''workflows''
      in bind_io (read_text (slash default_path ''tests.yml.in'')) (\<lambda>tests_yml.
         seq_io (open_w (slash workflows ''tests.yml'')) (
         let additional_config = (if with_pypy then TESTS_MATRIX_PYPY else [])
         in bind_io (lift_io (percent tests_yml
                       [(''version_config'', PStr versions_config),
                        (''additional_config'', PStr additional_config)]))
              (\<lambda>text. write_text (slash workflows ''tests.yml'') text))))"

text \<open>
  The body of the \<^verbatim>\<open>try\<close> statement, in three parts: up to the test run, the test run,
  and everything after it.
\<close>

definition enter_repository :: "platform \<Rightarrow> pypath \<Rightarrow> unit io" where
  "enter_repository pf path =
     seq_io (chdir path) (
     seq_io (bind_io (exists (Path ''bootstrap.py'')) (\<lambda>there.
               if there then bind_io (call pf [''git'', ''rm'', ''bootstrap.py''] False)
                                     (\<lambda>_. return_io ())
               else return_io ())) (
     bind_io (exists (Path ''.travis.yml'')) (\<lambda>there.
       if there then bind_io (call pf [''git'', ''rm'', ''.travis.yml''] False)
                             (\<lambda>_. return_io ())
       else return_io ())))"

definition tox :: "pypath \<Rightarrow> string list" where
  "tox cwd0 = [str_path (slash (slash cwd0 ''bin'') ''tox''), ''-p'', ''auto'']"

definition run_tox :: "platform \<Rightarrow> pypath \<Rightarrow> unit io" where
  "run_tox pf cwd0 = bind_io (call pf (tox cwd0) False) (\<lambda>_. return_io ())"

definition meta_header :: "string \<Rightarrow> string" where
  "meta_header config_type =
     ''# Generated from:'' @ [LF]
     @ ''# https://github.com/gocept/meta/tree/master/config/'' @ config_type @ [LF]"

definition write_meta_cfg :: "string \<Rightarrow> config \<Rightarrow> unit io" where
  "write_meta_cfg config_type meta_cfg =
     seq_io (open_w (Path ''.meta.cfg'')) (
     seq_io (write_text (Path ''.meta.cfg'') (meta_header config_type)) (
     write_cfg (Path ''.meta.cfg'') meta_cfg))"

definition git_commit :: "string \<Rightarrow> string list" where
  "git_commit config_type = [''git'', ''commit'', ''-m'', ''Configuring for '' @ config_type]"

definition commit_and_push ::
    "platform \<Rightarrow> string \<Rightarrow> bool \<Rightarrow> bool \<Rightarrow> bool \<Rightarrow> unit io" where
  "commit_and_push pf config_type rm_coveragerc add_coveragerc no_push =
     (let branch_name = ''config-with-'' @ config_type
      in bind_io (call pf [''git'', ''branch'', ''--format'', ''%(refname:short)''] True)
           (\<lambda>result.
         let branches = splitlines (stdout result)
         in bind_io (if branch_name \<in> set branches then
                       bind_io (call pf [''git'', ''checkout'', branch_name] False)
                               (\<lambda>_. return_io True)
                     else
                       bind_io (call pf [''git'', ''checkout'', ''-b'', branch_name] False)
                               (\<lambda>_. return_io False)) (\<lambda>updating.
            bind_io (call pf [''git'', ''add'', ''setup.cfg'', ''tox.ini'', ''.gitignore'',
                              ''.github/workflows/tests.yml'', ''MANIFEST.in'',
                              ''.editorconfig'', ''.meta.cfg''] False) (\<lambda>_.
            seq_io (if rm_coveragerc then
                      bind_io (call pf [''git'', ''rm'', ''.coveragerc''] False)
                              (\<lambda>_. return_io ())
                    else return_io ()) (
            seq_io (if add_coveragerc then
                      bind_io (call pf [''git'', ''add'', ''.coveragerc''] False)
                              (\<lambda>_. return_io ())
                    else return_io ()) (
            bind_io (call pf (git_commit config_type) False) (\<lambda>_.
            seq_io (if \<not> no_push then
                      bind_io (call pf [''git'', ''push'', ''--set-upstream'', ''origin'',
                                        branch_name] False) (\<lambda>_. return_io ())
                    else return_io ()) (
            seq_io (print []) (
            seq_io (print ''If everything went fine up to here:'') (
            if updating then print ''Updated the previously created PR.''
            else print ''Create a PR, using the URL shown above.''))))))))))"

definition after_tox ::
    "platform \<Rightarrow> string \<Rightarrow> config \<Rightarrow> bool \<Rightarrow> bool \<Rightarrow> bool \<Rightarrow> unit io" where
  "after_tox pf config_type meta_cfg rm_coveragerc add_coveragerc no_push =
     seq_io (write_meta_cfg config_type meta_cfg) (
     commit_and_push pf config_type rm_coveragerc add_coveragerc no_push)"

text \<open>
  The \<^verbatim>\<open>try\<close>/\<^verbatim>\<open>finally\<close> statement with the two assignments in front of it.
\<close>

definition orchestrate ::
    "platform \<Rightarrow> pypath \<Rightarrow> string \<Rightarrow> config \<Rightarrow> bool \<Rightarrow> bool \<Rightarrow> bool \<Rightarrow> unit io" where
  "orchestrate pf path config_type meta_cfg rm_coveragerc add_coveragerc no_push =
     bind_io getcwd (\<lambda>cwd0.
       try_finally
         (seq_io (enter_repository pf path) (
          seq_io (run_tox pf cwd0) (
          after_tox pf config_type meta_cfg rm_coveragerc add_coveragerc no_push)))
         (chdir cwd0))"

text \<open>
  What the module has computed when it reaches the \<^verbatim>\<open>try\<close> statement.
\<close>

record prepared =
  final_meta_cfg :: config
  final_with_pypy :: bool
  final_support_legacy_python :: bool
  final_add_coveragerc :: bool
  final_rm_coveragerc :: bool

definition prepare :: "platform \<Rightarrow> 'a args_scheme \<Rightarrow> prepared io" where
  "prepare pf a =
     (let path = Path (args_path a);
          config_type = args_type a;
          default_path = slash (script_dir pf) ''default'';
          config_type_path = slash (script_dir pf) config_type
      in bind_io (exists (slash path ''.git'')) (\<lambda>is_clone.
         if \<not> is_clone then raise_io ValueError
         else
         seq_io (update_registry config_type_path path) (
         bind_io (load_meta path) (\<lambda>cfg0.
         bind_io (update_meta pf config_type a cfg0) (\<lambda>(cfg1, with_pypy, legacy).
         bind_io (copy_templates config_type_path default_path path config_type)
           (\<lambda>(add_cov, rm_cov).
         let versions = get_supported_versions a;
             versions_config = get_test_matrix_versions versions;
             python_environs = get_tox_ini_versions versions
         in seq_io (write_setup_cfg config_type_path path legacy) (
            bind_io (write_tox_ini config_type_path path cfg1 with_pypy python_environs)
              (\<lambda>cfg2.
            seq_io (write_tests_yml default_path path with_pypy versions_config) (
            return_io \<lparr>final_meta_cfg = cfg2, final_with_pypy = with_pypy,
                       final_support_legacy_python = legacy,
                       final_add_coveragerc = add_cov,
                       final_rm_coveragerc = rm_cov\<rparr>)))))))))"

definition main :: "platform \<Rightarrow> 'a args_scheme \<Rightarrow> unit io" where
  "main pf a =
     bind_io (prepare pf a) (\<lambda>p.
       orchestrate pf (Path (args_path a)) (args_type a) (final_meta_cfg p)
         (final_rm_coveragerc p) (final_add_coveragerc p) (args_no_push a))"

section \<open>Sample runs\<close>

text \<open>
  Concrete surroundings on which the properties below are tried: a platform on which
  every subprocess succeeds, a process started in \<^verbatim>\<open>/work\<close> with no files, and a plain
  command line.
\<close>

definition ok_platform :: platform where
  "ok_platform =
     \<lparr>subprocess_run = (\<lambda>cmd capture s.
          Inr (\<lparr>returncode = 0, stdout = (if capture then ''0a1b2c'' else [])\<rparr>,
               \<lparr>files = files s, dirs = dirs s, stdin = stdin s\<rparr>)),
      script_dir = PurePath ''/'' [''meta'', ''config'']\<rparr>"

definition empty_state :: state where
  "empty_state = \<lparr>files = Map.empty, dirs = {}, stdin = [], cwd = [''work''], trace = []\<rparr>"

definition plain_args :: args where
  "plain_args =
     \<lparr>args_path = ''repo'', args_type = ''pytest'', args_no_push = True,
      args_with_pypy = False, args_support_legacy_python = False,
      args_min_version = (3, 6)\<rparr>"

definition tox_template_state :: state where
  "tox_template_state =
     empty_state\<lparr>files := [[''meta'', ''config'', ''pytest'', ''tox.ini.in'']
                                \<mapsto> Text ''%(coverage_report_options)s'']\<rparr>"

section \<open>Properties\<close>

lemma length_range_py: "length (range_py a b) = nat (b - a)"
  by (simp add: range_py_def)

lemma nth_range_py: "i < nat (b - a) \<Longrightarrow> range_py a b ! i = a + int i"
  by (simp add: range_py_def)

text \<open>
  Claim C1. For a minimum version \<open>(3, m)\<close> the result without the legacy switch has
  \<open>10 - m\<close> entries when \<open>m \<le> 9\<close>, the entry at position \<open>i\<close> being \<open>(3, m + i)\<close>, so it is
  \<open>(3, m), \<dots>, (3, 9)\<close> in this order; it is empty when \<open>m > 9\<close>; and with the legacy switch
  the result is the single entry \<open>(2, 7)\<close> put in front of that list, whatever \<open>m\<close> is.
\<close>

theorem get_supported_versions_range:
  fixes a :: args and m :: int
  defines "plain \<equiv> get_supported_versions (a\<lparr>args_min_version := (3, m), args_support_legacy_python := False\<rparr>)"
  defines "legacy \<equiv> get_supported_versions (a\<lparr>args_min_version := (3, m), args_support_legacy_python := True\<rparr>)"
  shows "(m \<le> 9 \<longrightarrow> length plain = nat (10 - m)
                  \<and> (\<forall>i < nat (10 - m). plain ! i = (3, m + int i))
                  \<and> hd plain = (3, m) \<and> last plain = (3, 9))
       \<and> (m > 9 \<longrightarrow> plain = [])
       \<and> legacy = (2, 7) # plain"
proof -
  have p: "plain = map (\<lambda>minor. (3, minor)) (range_py m 10)"
    by (simp add: plain_def get_supported_versions_def MAX_PYTHON_def)
  have l: "legacy = (2, 7) # plain"
    by (simp add: p legacy_def get_supported_versions_def MAX_PYTHON_def)
  have len: "length plain = nat (10 - m)"
    by (simp add: p length_range_py)
  have nth: "plain ! i = (3, m + int i)" if "i < nat (10 - m)" for i
    using that by (simp add: p length_range_py nth_range_py)
  have e: "plain = []" if "m > 9"
    using that by (simp add: p range_py_def)
  have h: "hd plain = (3, m)" if "m \<le> 9"
  proof -
    have "plain \<noteq> []" using that len by auto
    then have "hd plain = plain ! 0" by (simp add: hd_conv_nth)
    also have "\<dots> = (3, m)" using nth [of 0] that by simp
    finally show ?thesis .
  qed
  have la: "last plain = (3, 9)" if "m \<le> 9"
  proof -
    have ne: "plain \<noteq> []" using that len by auto
    then have "last plain = plain ! (nat (10 - m) - 1)"
      by (simp add: last_conv_nth len)
    also have "\<dots> = (3, m + int (nat (10 - m) - 1))"
      using that by (intro nth) auto
    also have "\<dots> = (3, 9)" using that by auto
    finally show ?thesis .
  qed
  show ?thesis using l len nth e h la by blast
qed

theorem get_supported_versions_range_witness:
  "get_supported_versions
     \<lparr>args_path = ''repo'', args_type = ''pytest'', args_no_push = False,
      args_with_pypy = False,
      args_support_legacy_python = False, args_min_version = (3, 6)\<rparr>
     = [(3, 6), (3, 7), (3, 8), (3, 9)]
   \<and> get_supported_versions
     \<lparr>args_path = ''repo'', args_type = ''pytest'', args_no_push = False,
      args_with_pypy = False,
      args_support_legacy_python = True, args_min_version = (3, 6)\<rparr>
     = [(2, 7), (3, 6), (3, 7), (3, 8), (3, 9)]
   \<and> get_supported_versions
     \<lparr>args_path = ''repo'', args_type = ''pytest'', args_no_push = False,
      args_with_pypy = False,
      args_support_legacy_python = False, args_min_version = (3, 10)\<rparr> = []"
proof -
  let ?a = "\<lparr>args_path = ''repo'', args_type = ''pytest'', args_no_push = False,
      args_with_pypy = False,
      args_support_legacy_python = False, args_min_version = (3, 6)\<rparr>"
  have six: "(6::int) \<le> 9" by simp
  have ten: "(10::int) > 9" by simp
  from get_supported_versions_range [of 6 ?a] six
  have len: "length (get_supported_versions ?a) = 4"
    and nth: "\<forall>i < 4. get_supported_versions ?a ! i = (3, 6 + int i)"
    and leg: "get_supported_versions (?a\<lparr>args_support_legacy_python := True\<rparr>)
              = (2, 7) # get_supported_versions ?a"
    by simp_all
  from get_supported_versions_range [of 10 ?a] ten
  have emp: "get_supported_versions (?a\<lparr>args_min_version := (3, 10)\<rparr>) = []"
    by simp
  have "get_supported_versions ?a = [(3, 6), (3, 7), (3, 8), (3, 9)]"
    using len nth by (auto simp: list_eq_iff_nth_eq less_Suc_eq numeral_eq_Suc)
  then show ?thesis using leg emp by simp
qed

subsection \<open>Sequencing\<close>

lemma bind_io_cases:
  assumes "bind_io m f s = (r, t)"
  obtains (raised) e where "m s = (Inl e, t)" "r = Inl e"
        | (returned) x s1 where "m s = (Inr x, s1)" "f x s1 = (r, t)"
  using assms by (auto simp: bind_io_def split: prod.splits sum.splits)

lemma seq_io_cases:
  assumes "seq_io m n s = (r, t)"
  obtains (raised) e where "m s = (Inl e, t)" "r = Inl e"
        | (returned) s1 where "m s = (Inr (), s1)" "n s1 = (r, t)"
  using assms unfolding seq_io_def by (elim bind_io_cases) auto

lemma bind_io_Inr: "m s = (Inr x, s1) \<Longrightarrow> bind_io m f s = f x s1"
  by (simp add: bind_io_def)

lemma bind_io_Inl: "m s = (Inl e, s1) \<Longrightarrow> bind_io m f s = (Inl e, s1)"
  by (simp add: bind_io_def)

lemma seq_io_Inr: "m s = (Inr x, s1) \<Longrightarrow> seq_io m n s = n s1"
  by (simp add: seq_io_def bind_io_def)

lemma seq_io_Inl: "m s = (Inl e, s1) \<Longrightarrow> seq_io m n s = (Inl e, s1)"
  by (simp add: seq_io_def bind_io_def)

subsection \<open>The working directory\<close>




subsection \<open>The metadata store\<close>

lemma optionxform_keys [simp]:
  "optionxform ''template'' = ''template''"
  "optionxform ''commit-id'' = ''commit-id''"
  "optionxform ''with-pypy'' = ''with-pypy''"
  "optionxform ''support_legacy_python'' = ''support_legacy_python''"
  "optionxform ''fail-under'' = ''fail-under''"
  by code_simp+

lemma lower_True_False [simp]: "lower ''True'' = ''true''" "lower ''False'' = ''false''"
  by code_simp+

lemma map_of_setitem: "map_of (setitem kvs k v) k' = (if k' = k then Some v else map_of kvs k')"
  by (induction kvs) auto

lemma map_fst_setitem:
  "map fst (setitem kvs k v) = (if k \<in> fst ` set kvs then map fst kvs else map fst kvs @ [k])"
  by (induction kvs) force+

lemma map_of_cfg_set:
  "map_of (cfg_set cfg sec k v) sec' =
     (if sec' = sec then map_option (\<lambda>opts. setitem opts (optionxform k) v) (map_of cfg sec)
      else map_of cfg sec')"
  by (induction cfg) (auto simp: cfg_set_def)

lemma map_fst_cfg_set: "map fst (cfg_set cfg sec k v) = map fst cfg"
  by (induction cfg) (auto simp: cfg_set_def)

lemma cfg_get_cfg_set:
  "cfg_get (cfg_set cfg sec k v) sec k' =
     (if map_of cfg sec = None then None
      else if optionxform k' = optionxform k then Some v
      else cfg_get cfg sec k')"
  by (auto simp: cfg_get_def map_of_cfg_set map_of_setitem split: option.splits)

lemma cfg_get_cfg_set_other:
  "optionxform k' \<noteq> optionxform k \<Longrightarrow>
   cfg_get (cfg_set cfg sec k v) sec k' = cfg_get cfg sec k'"
  by (simp add: cfg_get_cfg_set) (simp add: cfg_get_def)

lemma getboolean_cfg_set_other:
  "optionxform k' \<noteq> optionxform k \<Longrightarrow>
   getboolean (cfg_set cfg sec k v) sec k' fb = getboolean cfg sec k' fb"
  by (simp add: getboolean_def cfg_get_cfg_set_other)


lemma getboolean_missing:
  "cfg_get cfg sec k = None \<Longrightarrow> getboolean cfg sec k fb = Inr fb"
  by (simp add: getboolean_def)

lemma update_meta_result:
  assumes "update_meta pf config_type a cfg s = (Inr (cfg', wp, lp), s')"
  obtains result b b' where
    "call pf git_log True s = (Inr result, s')"
    "getboolean cfg ''meta'' ''with-pypy'' False = Inr b"
    "wp = (b \<or> args_with_pypy a)"
    "getboolean cfg ''meta'' ''support_legacy_python'' False = Inr b'"
    "lp = (b' \<or> args_support_legacy_python a)"
    "cfg' = cfg_set (cfg_set (cfg_set (cfg_set cfg
               ''meta'' ''template'' config_type)
               ''meta'' ''commit-id'' (stdout result))
               ''meta'' ''with-pypy'' (str_bool wp))
               ''meta'' ''support_legacy_python'' (str_bool lp)"
  using assms unfolding update_meta_def Let_def bind_io_def lift_io_def return_io_def
  by (auto split: prod.splits sum.splits simp: getboolean_cfg_set_other)

lemma call_git_log_update_meta:
  assumes c: "call pf git_log True s = (Inr result, s1)"
      and bw: "getboolean cfg ''meta'' ''with-pypy'' False = Inr bw"
      and bl: "getboolean cfg ''meta'' ''support_legacy_python'' False = Inr bl"
  shows "update_meta pf config_type a cfg s =
           (Inr (cfg_set (cfg_set (cfg_set (cfg_set cfg
               ''meta'' ''template'' config_type)
               ''meta'' ''commit-id'' (stdout result))
               ''meta'' ''with-pypy'' (str_bool (bw \<or> args_with_pypy a)))
               ''meta'' ''support_legacy_python'' (str_bool (bl \<or> args_support_legacy_python a)),
                 bw \<or> args_with_pypy a, bl \<or> args_support_legacy_python a), s1)"
  unfolding update_meta_def Let_def
  by (simp add: bind_io_def c lift_io_def return_io_def getboolean_cfg_set_other bw bl)


lemma update_meta_keeps_fail_under:
  assumes "update_meta pf config_type a cfg s = (Inr (cfg', wp, lp), s')"
  shows "cfg_get cfg' ''meta'' ''fail-under'' = cfg_get cfg ''meta'' ''fail-under''"
  using assms by (elim update_meta_result) (simp add: cfg_get_cfg_set_other)

lemma write_tox_ini_result:
  assumes "write_tox_ini ctp repo cfg wp pe s = (Inr cfg', s')"
  shows "cfg' = snd (setdefault cfg ''meta'' ''fail-under'' ''0'')"
  using assms unfolding write_tox_ini_def Let_def
  by (auto elim!: bind_io_cases seq_io_cases simp: return_io_def split: prod.splits)

text \<open>
  Claim C5. From the metadata as loaded (\<open>cfg0\<close>) through the assignments to
  \<^verbatim>\<open>meta_opts\<close> and the \<^verbatim>\<open>setdefault\<close> call: a \<^verbatim>\<open>fail-under\<close> that is present keeps its
  value and the \<^verbatim>\<open>setdefault\<close> changes nothing; one that is absent becomes \<^verbatim>\<open>"0"\<close>.
\<close>

theorem fail_under_default:
  assumes u: "update_meta pf config_type a cfg0 s0 = (Inr (cfg, wp, lp), s1)"
      and w: "write_tox_ini config_type_path repo cfg wp python_environs s2 = (Inr cfg', s')"
  shows "(\<forall>v. cfg_get cfg0 ''meta'' ''fail-under'' = Some v \<longrightarrow>
            cfg' = cfg \<and> cfg_get cfg' ''meta'' ''fail-under'' = Some v)
       \<and> (cfg_get cfg0 ''meta'' ''fail-under'' = None \<and> map_of cfg0 ''meta'' \<noteq> None \<longrightarrow>
            cfg' = cfg_set cfg ''meta'' ''fail-under'' ''0''
            \<and> cfg_get cfg' ''meta'' ''fail-under'' = Some ''0'')"
proof -
  have k: "cfg_get cfg ''meta'' ''fail-under'' = cfg_get cfg0 ''meta'' ''fail-under''"
    by (rule update_meta_keeps_fail_under [OF u])
  have m: "map_of cfg ''meta'' \<noteq> None" if "map_of cfg0 ''meta'' \<noteq> None"
    using u that by (elim update_meta_result) (simp add: map_of_cfg_set)
  show ?thesis
    using write_tox_ini_result [OF w] k m
    by (auto simp: setdefault_def cfg_get_cfg_set)
qed

lemma call_ok_platform:
  "call ok_platform cmd capture s =
     (Inr \<lparr>returncode = 0, stdout = (if capture then ''0a1b2c'' else [])\<rparr>,
      log (Run (cwd s) cmd) s)"
  by (simp add: call_def run_def ok_platform_def bind_io_def return_io_def log_def Let_def)


theorem fail_under_default_witness:
  "fst (write_tox_ini (PurePath ''/'' [''meta'', ''config'', ''pytest'']) (Path ''repo'')
          (fst (projr (fst (update_meta ok_platform ''pytest'' plain_args
                              [(''meta'', [(''fail-under'', ''97'')])] empty_state))))
          False [] tox_template_state)
     = Inr (fst (projr (fst (update_meta ok_platform ''pytest'' plain_args
                              [(''meta'', [(''fail-under'', ''97'')])] empty_state))))
   \<and> cfg_get (fst (projr (fst (update_meta ok_platform ''pytest'' plain_args
                              [(''meta'', [(''fail-under'', ''97'')])] empty_state))))
         ''meta'' ''fail-under'' = Some ''97''"
proof -
  let ?init = "[(''meta'', [(''fail-under'', ''97'')])]"
  let ?u = "update_meta ok_platform ''pytest'' plain_args ?init empty_state"
  let ?cfg = "fst (projr (fst ?u))"
  let ?w = "write_tox_ini (PurePath ''/'' [''meta'', ''config'', ''pytest''])
              (Path ''repo'') ?cfg False [] tox_template_state"
  have bw: "getboolean ?init ''meta'' ''with-pypy'' False = Inr False"
    by (simp add: getboolean_def cfg_get_def)
  have bl: "getboolean ?init ''meta'' ''support_legacy_python'' False = Inr False"
    by (simp add: getboolean_def cfg_get_def)
  have u: "?u = (Inr (?cfg, False, False), log (Run (cwd empty_state) git_log) empty_state)"
    by (simp add: call_git_log_update_meta [OF call_ok_platform bw bl] plain_args_def)
  have "\<not> isl (fst ?w)"
    by code_simp
  then obtain c where w: "?w = (Inr c, snd ?w)"
    by (metis prod.collapse sum.collapse(2))
  have g: "cfg_get ?init ''meta'' ''fail-under'' = Some ''97''"
    by (simp add: cfg_get_def)
  from fail_under_default [OF u w] g
  have c: "c = ?cfg \<and> cfg_get c ''meta'' ''fail-under'' = Some ''97''"
    by blast
  have "fst ?w = Inr c"
    by (subst w) simp
  with c show ?thesis by blast
qed

end
